theory Spec2Isabelle
  imports Complex_Main "HOL-Library.AList"
begin

section \<open>Python values, profiles and exceptions\<close>

text \<open>
  A candidate profile is a Python dict from field names to values. The dict is an
  association list: lookup is \<open>map_of\<close>, item assignment is \<open>AList.update\<close>
  (an existing key keeps its position, a new key is appended, as in Python).
  Floats are modelled as reals; the values that occur (0, 0.3, 1.0, ...) are only
  stored and compared.
\<close>

datatype pyval = PNone | PBool bool | PNum real | PStr string | PList "pyval list"

type_synonym profile = "(string \<times> pyval) list"

datatype exn =
    KeyError string
  | TypeError string
  | ImportError string
  | OtherError string

text \<open>
  Membership in a Python set goes through hash and equality: \<open>True == 1 == 1.0\<close>,
  and a list is unhashable (TypeError).
\<close>

datatype pykey = KNone | KNum real | KStr string

fun hash_key :: "pyval \<Rightarrow> exn + pykey" where
  "hash_key PNone = Inr KNone"
| "hash_key (PBool b) = Inr (KNum (if b then 1 else 0))"
| "hash_key (PNum r) = Inr (KNum r)"
| "hash_key (PStr s) = Inr (KStr s)"
| "hash_key (PList vs) = Inl (TypeError ''unhashable type: list'')"

section \<open>agents/validate\_rank.py\<close>

text \<open>\<open>p['name']\<close> followed by the hashing that \<open>not in seen\<close> performs.\<close>

definition name_key :: "profile \<Rightarrow> exn + pykey" where
  "name_key p = (case map_of p ''name'' of
                   None \<Rightarrow> Inl (KeyError ''name'')
                 | Some v \<Rightarrow> hash_key v)"

text \<open>\<open>p['score'] = 1.0\<close>\<close>

definition set_score :: "profile \<Rightarrow> profile" where
  "set_score p = AList.update ''score'' (PNum 1) p"

text \<open>The loop of lines 5-9, with \<open>seen\<close> and \<open>unique\<close> as accumulators.\<close>

fun dedup_loop :: "pykey set \<Rightarrow> profile list \<Rightarrow> profile list \<Rightarrow> exn + profile list" where
  "dedup_loop seen unique [] = Inr unique"
| "dedup_loop seen unique (p # ps) =
     (case name_key p of
        Inl e \<Rightarrow> Inl e
      | Inr k \<Rightarrow>
          if k \<notin> seen
          then dedup_loop (insert k seen) (unique @ [set_score p]) ps
          else dedup_loop seen unique ps)"

text \<open>
  validate\_and\_rank takes \<open>goal\<close> and \<open>company_info\<close> too and reads neither.
  The sort key \<open>x['score']\<close>. Every element of \<open>unique\<close> had its score written on
  line 8, so the lookup cannot fail there; the default covers the other inputs of
  the HOL function.
\<close>

definition score_of :: "profile \<Rightarrow> real" where
  "score_of p = (case map_of p ''score'' of Some (PNum r) \<Rightarrow> r | _ \<Rightarrow> 0)"

text \<open>
  \<open>sorted(xs, key=k, reverse=True)\<close>: descending by key, and stable (elements with
  equal keys keep their order, also under \<open>reverse=True\<close>).
\<close>

definition sorted_reverse :: "('a \<Rightarrow> real) \<Rightarrow> 'a list \<Rightarrow> 'a list" where
  "sorted_reverse k xs = sort_key (\<lambda>x. - k x) xs"

definition validate_and_rank :: "profile list \<Rightarrow> exn + profile list" where
  "validate_and_rank profiles =
     (case dedup_loop {} [] profiles of
        Inl e \<Rightarrow> Inl e
      | Inr unique \<Rightarrow> Inr (sorted_reverse score_of unique))"

text \<open>
  First occurrence wins, stated without the \<open>seen\<close> set: keep the head, drop every
  later profile with the same name key, continue.
\<close>

fun drop_later_dups :: "profile list \<Rightarrow> profile list" where
  "drop_later_dups [] = []"
| "drop_later_dups (p # ps) =
     p # drop_later_dups (filter (\<lambda>q. name_key q \<noteq> name_key p) ps)"


text \<open>
  The identity key as the specification words it (section 4.6), for comparison with
  \<open>name_key\<close>: a non-empty handle or profile URL if there is one, else the full name
  lower-cased with runs of whitespace collapsed. \<open>str_lower\<close> covers the ASCII
  letters.
\<close>

definition lower_char :: "char \<Rightarrow> char" where
  "lower_char c =
     (case map_of (zip ''ABCDEFGHIJKLMNOPQRSTUVWXYZ'' ''abcdefghijklmnopqrstuvwxyz'') c of
        Some d \<Rightarrow> d
      | None \<Rightarrow> c)"

definition str_lower :: "string \<Rightarrow> string" where
  "str_lower s = map lower_char s"

definition is_space :: "char \<Rightarrow> bool" where
  "is_space c = (c = CHR '' '' \<or> c = CHR 0x09 \<or> c = CHR 0x0A \<or> c = CHR 0x0D)"

fun split_ws :: "string \<Rightarrow> string \<Rightarrow> string list" where
  "split_ws cur [] = (if cur = [] then [] else [cur])"
| "split_ws cur (c # cs) =
     (if is_space c then (if cur = [] then split_ws [] cs else cur # split_ws [] cs)
      else split_ws (cur @ [c]) cs)"

fun join_space :: "string list \<Rightarrow> string" where
  "join_space [] = []"
| "join_space [w] = w"
| "join_space (w # ws) = w @ '' '' @ join_space ws"

definition normalize_name :: "string \<Rightarrow> string" where
  "normalize_name s = join_space (split_ws [] (str_lower s))"

fun nonempty_str :: "pyval option \<Rightarrow> string option" where
  "nonempty_str (Some (PStr s)) = (if s = [] then None else Some s)"
| "nonempty_str _ = None"

definition spec_identity_key :: "profile \<Rightarrow> pykey" where
  "spec_identity_key p =
     (case nonempty_str (map_of p ''x_handle'') of
        Some h \<Rightarrow> KStr h
      | None \<Rightarrow>
          (case nonempty_str (map_of p ''linkedin'') of
             Some u \<Rightarrow> KStr u
           | None \<Rightarrow>
               (case map_of p ''name'' of
                  Some (PStr n) \<Rightarrow> KStr (normalize_name n)
                | _ \<Rightarrow> KNone)))"

section \<open>user\_auth.py\<close>

text \<open>
  The SQLite file is modelled by two of its tables, \<open>social_tokens\<close> and \<open>api_usage\<close>,
  each the list of its rows in insertion (rowid) order. Neither table has a key or a UNIQUE constraint
  besides the AUTOINCREMENT \<open>id\<close> (lines 28-53). \<open>calls\<close> is not part of the database:
  it logs, in order, the invocations of collaborators (the refresh of a token, the
  tiers of a scout, and inside an enhanced module the search with the user's token,
  the module's own fallback and the shared API search that fallback may run), so that
  properties about what is or is not invoked can be stated.
  Failures of the SQLite engine itself and the output of \<open>print\<close> are not modelled.
\<close>

record token_row =
  tr_id :: nat
  tr_user_id :: string
  tr_platform :: string
  tr_access_token :: pyval
  tr_refresh_token :: pyval
  tr_expires_at :: "real option"
  tr_token_data :: "(string \<times> pyval) list"
  tr_created_at :: int

record usage_row =
  ur_id :: nat
  ur_user_id :: "string option"
  ur_platform :: string
  ur_endpoint :: string
  ur_usage_count :: int
  ur_date :: int

datatype tier = AuthenticatedUser | SharedService | OfflineFallback

datatype call =
    RefreshCall string string
  | TierCall string tier
  | UserTokenSearch string
  | EnhancedFallback string
  | SharedApiSearch string

record state =
  social_tokens :: "token_row list"
  api_usage :: "usage_row list"
  calls :: "call list"

text \<open>
  The three clocks the code reads: \<open>datetime.now()\<close> in seconds, SQLite's
  \<open>CURRENT_TIMESTAMP\<close> (whole seconds) and SQLite's \<open>date('now')\<close> as a day number.
\<close>

record clock =
  now :: real
  current_timestamp :: int
  today :: int

text \<open>\<open>dict.get(key)\<close>: the value, or None for a missing key.\<close>

definition dict_get :: "(string \<times> pyval) list \<Rightarrow> string \<Rightarrow> pyval" where
  "dict_get d k = (case map_of d k of None \<Rightarrow> PNone | Some v \<Rightarrow> v)"

text \<open>\<open>timedelta(seconds=v)\<close>: a number (or a bool), else TypeError.\<close>

fun timedelta_seconds :: "pyval \<Rightarrow> exn + real" where
  "timedelta_seconds (PNum r) = Inr r"
| "timedelta_seconds (PBool b) = Inr (if b then 1 else 0)"
| "timedelta_seconds _ = Inl (TypeError ''unsupported type for timedelta seconds component'')"

text \<open>Binding a query parameter: sqlite3 accepts None, numbers and strings, not a list.\<close>

fun sql_bind :: "pyval \<Rightarrow> exn + pyval" where
  "sql_bind (PList vs) = Inl (OtherError ''sqlite3: error binding parameter'')"
| "sql_bind (PBool b) = Inr (PNum (if b then 1 else 0))"
| "sql_bind v = Inr v"

text \<open>The id an AUTOINCREMENT column gives the next row (no row is ever deleted).\<close>

definition next_id :: "nat list \<Rightarrow> nat" where
  "next_id ids = Suc (fold max ids 0)"

text \<open>
  store\_social\_token, lines 78-102. \<open>INSERT OR REPLACE\<close> replaces a row only on a
  conflict with a PRIMARY KEY or UNIQUE constraint; the statement gives no \<open>id\<close> and the
  table has no other constraint, so it always appends a row.
\<close>

definition store_social_token ::
  "clock \<Rightarrow> state \<Rightarrow> string \<Rightarrow> string \<Rightarrow> (string \<times> pyval) list \<Rightarrow> exn + state" where
  "store_social_token clk st user_id platform token_data =
     (case (case map_of token_data ''expires_in'' of
              None \<Rightarrow> Inr None
            | Some v \<Rightarrow> (case timedelta_seconds v of
                          Inl e \<Rightarrow> Inl e
                        | Inr secs \<Rightarrow> Inr (Some (now clk + secs)))) of
        Inl e \<Rightarrow> Inl e
      | Inr expires_at \<Rightarrow>
          (case sql_bind (dict_get token_data ''access_token'') of
             Inl e \<Rightarrow> Inl e
           | Inr access \<Rightarrow>
               (case sql_bind (dict_get token_data ''refresh_token'') of
                  Inl e \<Rightarrow> Inl e
                | Inr refresh \<Rightarrow>
                    Inr (st\<lparr>social_tokens := social_tokens st @
                          [\<lparr>tr_id = next_id (map tr_id (social_tokens st)),
                            tr_user_id = user_id,
                            tr_platform = platform,
                            tr_access_token = access,
                            tr_refresh_token = refresh,
                            tr_expires_at = expires_at,
                            tr_token_data = token_data,
                            tr_created_at = current_timestamp clk\<rparr>]\<rparr>))))"

text \<open>
  \<open>ORDER BY created_at DESC LIMIT 1\<close>: a row with the greatest \<open>created_at\<close>. SQL leaves
  the choice among rows with equal \<open>created_at\<close> open; the model takes the one inserted
  first.
\<close>

fun newest :: "token_row list \<Rightarrow> token_row option" where
  "newest [] = None"
| "newest (r # rs) =
     (case newest rs of
        None \<Rightarrow> Some r
      | Some r' \<Rightarrow> if tr_created_at r < tr_created_at r' then Some r' else Some r)"

definition select_token :: "state \<Rightarrow> string \<Rightarrow> string \<Rightarrow> token_row option" where
  "select_token st user_id platform =
     newest (filter (\<lambda>r. tr_user_id r = user_id \<and> tr_platform r = platform) (social_tokens st))"

text \<open>The dict that get\_user\_token returns (lines 133-138).\<close>

record user_token =
  ut_access_token :: pyval
  ut_refresh_token :: pyval
  ut_expires_at :: "real option"
  ut_token_data :: "(string \<times> pyval) list"

text \<open>
  refresh\_token and its two helpers, lines 140-160: every branch returns None. The
  invocation is logged.
\<close>

definition refresh_twitter_token :: "string \<Rightarrow> pyval \<Rightarrow> user_token option" where
  "refresh_twitter_token user_id refresh = None"

definition refresh_linkedin_token :: "string \<Rightarrow> pyval \<Rightarrow> user_token option" where
  "refresh_linkedin_token user_id refresh = None"

definition refresh_token ::
  "state \<Rightarrow> string \<Rightarrow> string \<Rightarrow> pyval \<Rightarrow> user_token option \<times> state" where
  "refresh_token st user_id platform refresh =
     (let st' = st\<lparr>calls := calls st @ [RefreshCall user_id platform]\<rparr>
      in if platform = ''twitter'' then (refresh_twitter_token user_id refresh, st')
         else if platform = ''linkedin'' then (refresh_linkedin_token user_id refresh, st')
         else (None, st'))"

text \<open>
  get\_user\_token, lines 104-138. The stored \<open>expires_at\<close> and \<open>token_data\<close> were written
  by store\_social\_token, so \<open>fromisoformat\<close> and \<open>json.loads\<close> read back what was
  stored.
\<close>

definition get_user_token ::
  "clock \<Rightarrow> state \<Rightarrow> string \<Rightarrow> string \<Rightarrow> user_token option \<times> state" where
  "get_user_token clk st user_id platform =
     (case select_token st user_id platform of
        None \<Rightarrow> (None, st)
      | Some r \<Rightarrow>
          (case tr_expires_at r of
             Some t \<Rightarrow>
               if t < now clk
               then (case refresh_token st user_id platform (tr_refresh_token r) of
                       (Some refreshed, st') \<Rightarrow> (Some refreshed, st')
                     | (None, st') \<Rightarrow> (None, st'))
               else (Some \<lparr>ut_access_token = tr_access_token r,
                            ut_refresh_token = tr_refresh_token r,
                            ut_expires_at = tr_expires_at r,
                            ut_token_data = tr_token_data r\<rparr>, st)
           | None \<Rightarrow>
               (Some \<lparr>ut_access_token = tr_access_token r,
                       ut_refresh_token = tr_refresh_token r,
                       ut_expires_at = tr_expires_at r,
                       ut_token_data = tr_token_data r\<rparr>, st)))"

text \<open>
  track\_api\_usage, lines 162-179. \<open>INSERT OR IGNORE\<close> ignores a row only on a
  constraint conflict, and the table has none: the row with count 1 is always
  appended. The UPDATE then adds 1 to every row of the key and today's date. The
  user id is optional because one caller passes None, which SQLite stores as NULL
  and which \<open>user_id = ?\<close> never matches.
\<close>

definition track_api_usage ::
  "clock \<Rightarrow> state \<Rightarrow> string option \<Rightarrow> string \<Rightarrow> string \<Rightarrow> state" where
  "track_api_usage clk st user_id platform endpoint =
     (let inserted = api_usage st @
            [\<lparr>ur_id = next_id (map ur_id (api_usage st)),
              ur_user_id = user_id,
              ur_platform = platform,
              ur_endpoint = endpoint,
              ur_usage_count = 1,
              ur_date = today clk\<rparr>];
          updated = map (\<lambda>r. if user_id \<noteq> None \<and> ur_user_id r = user_id
                                  \<and> ur_platform r = platform
                                  \<and> ur_endpoint r = endpoint \<and> ur_date r = today clk
                               then r\<lparr>ur_usage_count := ur_usage_count r + 1\<rparr>
                               else r) inserted
      in st\<lparr>api_usage := updated\<rparr>)"

text \<open>
  get\_user\_usage, lines 181-197: for each endpoint among the rows of the user and
  platform dated \<open>date('now', '-days days')\<close> or later, the sum of the counts.
  \<open>GROUP BY\<close> leaves the order of the groups open, and dicts compare regardless of it.
\<close>

definition get_user_usage ::
  "clock \<Rightarrow> state \<Rightarrow> string \<Rightarrow> string \<Rightarrow> int \<Rightarrow> (string \<times> int) list" where
  "get_user_usage clk st user_id platform days =
     (let rows = filter (\<lambda>r. ur_user_id r = Some user_id \<and> ur_platform r = platform
                              \<and> today clk - days \<le> ur_date r) (api_usage st)
      in map (\<lambda>e. (e, sum_list (map ur_usage_count (filter (\<lambda>r. ur_endpoint r = e) rows))))
             (remdups (map ur_endpoint rows)))"

text \<open>The initial state: init\_database on a fresh file creates empty tables.\<close>

definition init_database :: state where
  "init_database = \<lparr>social_tokens = [], api_usage = [], calls = []\<rparr>"

section \<open>config.py and the outside world\<close>



text \<open>
  The last three fields are the people a search of an enhanced module finds:
  \<open>linkedin_token_search\<close> and \<open>twitter_token_search\<close> with the user's token,
  \<open>shared_api_search\<close> with the shared bearer token.
\<close>

section \<open>agents/linkedin\_scout\_real.py\<close>




section \<open>agents/x\_scout\_real.py\<close>






section \<open>agents/email\_scout\_real.py and agents/internet\_scout\_real.py\<close>






section \<open>agents/linkedin\_scout\_enhanced.py and agents/x\_scout\_enhanced.py\<close>


text \<open>
  Every profile the searches of the two modules build comes out of
  \_parse\_linkedin\_profile or \_parse\_twitter\_user, whose dict literal fixes
  \<open>'source'\<close> to \<open>'linkedin_oauth'\<close> (linkedin\_scout\_enhanced.py 156) and to
  \<open>'twitter_oauth'\<close> (x\_scout\_enhanced.py 195). The provider decides the other
  fields.
\<close>

definition tag_source :: "string \<Rightarrow> profile \<Rightarrow> profile" where
  "tag_source tag p = AList.update ''source'' (PStr tag) p"







section \<open>The four scouts\<close>


text \<open>\<open>any(p.get('source') == tag for p in profiles)\<close>\<close>

definition any_source :: "string \<Rightarrow> profile list \<Rightarrow> bool" where
  "any_source tag profiles = list_ex (\<lambda>p. dict_get p ''source'' = PStr tag) profiles"

subsection \<open>agents/linkedin\_scout.py\<close>





subsection \<open>agents/x\_scout.py\<close>





subsection \<open>agents/email\_scout.py and agents/internet\_scout.py\<close>





section \<open>agents/message\_gen.py\<close>






section \<open>app.py: lead\_discovery\<close>



















section \<open>Properties of validate\_and\_rank\<close>

lemma score_of_set_score: "score_of (set_score p) = 1"
  by (simp add: score_of_def set_score_def update_conv')

lemma map_of_set_score_score: "map_of (set_score p) ''score'' = Some (PNum 1)"
  by (simp add: set_score_def update_conv')

lemma map_of_set_score_other: "k \<noteq> ''score'' \<Longrightarrow> map_of (set_score p) k = map_of p k"
  by (simp add: set_score_def update_conv')

lemma dedup_loop_spec:
  "dedup_loop seen unique ps = Inr out \<Longrightarrow>
   out = unique @ map set_score (drop_later_dups (filter (\<lambda>q. name_key q \<notin> Inr ` seen) ps))"
proof (induction ps arbitrary: seen unique)
  case Nil
  then show ?case by simp
next
  case (Cons p ps)
  from Cons.prems obtain k where k: "name_key p = Inr k"
    by (cases "name_key p") auto
  show ?case
  proof (cases "k \<in> seen")
    case True
    with Cons.prems k have "dedup_loop seen unique ps = Inr out" by simp
    from Cons.IH[OF this] True k show ?thesis by simp
  next
    case False
    with Cons.prems k
    have "dedup_loop (insert k seen) (unique @ [set_score p]) ps = Inr out" by simp
    from Cons.IH[OF this]
    have out: "out = (unique @ [set_score p]) @
        map set_score (drop_later_dups (filter (\<lambda>q. name_key q \<notin> Inr ` insert k seen) ps))" .
    have flt: "filter (\<lambda>q. name_key q \<noteq> name_key p) (filter (\<lambda>q. name_key q \<notin> Inr ` seen) ps)
             = filter (\<lambda>q. name_key q \<notin> Inr ` insert k seen) ps"
      using k by (auto intro: filter_cong)
    have "name_key p \<notin> Inr ` seen" using k False by auto
    then show ?thesis using out flt by simp
  qed
qed

lemma dedup_loop_names:
  "dedup_loop seen unique ps = Inr out \<Longrightarrow> \<forall>p\<in>set ps. \<exists>k. name_key p = Inr k"
proof (induction ps arbitrary: seen unique)
  case Nil
  then show ?case by simp
next
  case (Cons p ps)
  from Cons.prems obtain k where k: "name_key p = Inr k"
    by (cases "name_key p") auto
  from Cons.prems k have "\<exists>s u. dedup_loop s u ps = Inr out"
    by (auto split: if_splits)
  with Cons.IH k show ?case by auto
qed

lemma dedup_loop_total:
  "\<forall>p\<in>set ps. \<exists>k. name_key p = Inr k \<Longrightarrow> \<exists>out. dedup_loop seen unique ps = Inr out"
  by (induction ps arbitrary: seen unique) auto

lemma sort_key_const: "\<forall>x\<in>set xs. f x = c \<Longrightarrow> sort_key f xs = xs"
proof (induction xs)
  case Nil
  then show ?case by simp
next
  case (Cons x xs)
  then have "sort_key f xs = xs" by simp
  then have "sort_key f (x # xs) = insort_key f x xs" by simp
  also have "\<dots> = x # xs" using Cons.prems by (cases xs) auto
  finally show ?case .
qed

lemma validate_and_rank_spec:
  assumes "validate_and_rank ps = Inr out"
  shows "dedup_loop {} [] ps = Inr out" and "out = map set_score (drop_later_dups ps)"
proof -
  from assms obtain u where u: "dedup_loop {} [] ps = Inr u"
    and out: "out = sorted_reverse score_of u"
    by (auto simp: validate_and_rank_def split: sum.splits)
  from dedup_loop_spec[OF u] have ueq: "u = map set_score (drop_later_dups ps)" by simp
  then have "\<forall>p\<in>set u. - score_of p = - 1" by (auto simp: score_of_set_score)
  then have "sort_key (\<lambda>x. - score_of x) u = u" by (rule sort_key_const)
  with out have "out = u" by (simp add: sorted_reverse_def)
  with u ueq show "dedup_loop {} [] ps = Inr out" and "out = map set_score (drop_later_dups ps)"
    by simp_all
qed


lemma sorted_reverse_desc: "sorted_wrt (\<lambda>a b. k b \<le> k a) (sorted_reverse k xs)"
proof -
  have "sorted (map (\<lambda>x. - k x) (sort_key (\<lambda>x. - k x) xs))" by simp
  then show ?thesis by (simp add: sorted_reverse_def sorted_wrt_map)
qed

lemma sorted_reverse_stable:
  "filter (\<lambda>x. k x = c) (sorted_reverse k xs) = filter (\<lambda>x. k x = c) xs"
proof -
  have "filter (\<lambda>y. - k y = - c) (sort_key (\<lambda>x. - k x) xs) = filter (\<lambda>y. - k y = - c) xs"
    by (rule sort_key_stable)
  then show ?thesis by (simp add: sorted_reverse_def)
qed

lemmas vr_eval = validate_and_rank_def name_key_def set_score_def sorted_reverse_def score_of_def

subsection \<open>C4: the identity key of deduplication\<close>

text \<open>
  C4, as stated, fails. It keys a profile by a non-empty handle or profile URL and
  otherwise by the normalized name. The code keys by the raw value of \<open>'name'\<close> only:
  two profiles with the same LinkedIn URL and different names are both kept, and so are
  two profiles whose names differ only in case and spacing.
\<close>

theorem C4_identity_key_counterexample:
  "spec_identity_key [(''name'', PStr ''Bob LinkedIn''), (''linkedin'', PStr ''https://linkedin.com/in/bob'')]
     = spec_identity_key [(''name'', PStr ''Robert L.''), (''linkedin'', PStr ''https://linkedin.com/in/bob'')]
   \<and> validate_and_rank
        [[(''name'', PStr ''Bob LinkedIn''), (''linkedin'', PStr ''https://linkedin.com/in/bob'')],
         [(''name'', PStr ''Robert L.''), (''linkedin'', PStr ''https://linkedin.com/in/bob'')]]
     = Inr [[(''name'', PStr ''Bob LinkedIn''), (''linkedin'', PStr ''https://linkedin.com/in/bob''),
             (''score'', PNum 1)],
            [(''name'', PStr ''Robert L.''), (''linkedin'', PStr ''https://linkedin.com/in/bob''),
             (''score'', PNum 1)]]
   \<and> spec_identity_key [(''name'', PStr ''Bob Smith'')] = spec_identity_key [(''name'', PStr ''bob  smith'')]
   \<and> validate_and_rank [[(''name'', PStr ''Bob Smith'')], [(''name'', PStr ''bob  smith'')]]
     = Inr [[(''name'', PStr ''Bob Smith''), (''score'', PNum 1)],
            [(''name'', PStr ''bob  smith''), (''score'', PNum 1)]]"
  by (simp add: vr_eval spec_identity_key_def normalize_name_def str_lower_def lower_char_def
      is_space_def)

text \<open>
  C4, amended: whenever validate\_and\_rank returns, its result is the input with every
  profile dropped whose exact \<open>'name'\<close> value occurred earlier (first occurrence wins, in
  traversal order); each kept profile is the first-seen record with only its
  \<open>'score'\<close> field written, so no field of a dropped duplicate is merged into it.
\<close>

theorem C4_dedup_by_exact_name:
  assumes "validate_and_rank ps = Inr out"
  shows "out = map set_score (drop_later_dups ps)
       \<and> (\<forall>p\<in>set ps. \<forall>k. k \<noteq> ''score'' \<longrightarrow> map_of (set_score p) k = map_of p k)"
  using validate_and_rank_spec(2)[OF assms] by (simp add: map_of_set_score_other)

theorem C4_dedup_by_exact_name_witness:
  "validate_and_rank
     [[(''name'', PStr ''Bob''), (''title'', PStr ''VP'')],
      [(''name'', PStr ''Bob''), (''title'', PStr ''CTO''), (''x_handle'', PStr ''@bob'')],
      [(''name'', PStr ''Al'')]]
   = Inr [[(''name'', PStr ''Bob''), (''title'', PStr ''VP''), (''score'', PNum 1)],
          [(''name'', PStr ''Al''), (''score'', PNum 1)]]
   \<and> map set_score (drop_later_dups
     [[(''name'', PStr ''Bob''), (''title'', PStr ''VP'')],
      [(''name'', PStr ''Bob''), (''title'', PStr ''CTO''), (''x_handle'', PStr ''@bob'')],
      [(''name'', PStr ''Al'')]])
   = [[(''name'', PStr ''Bob''), (''title'', PStr ''VP''), (''score'', PNum 1)],
      [(''name'', PStr ''Al''), (''score'', PNum 1)]]"
proof -
  have h: "validate_and_rank
     [[(''name'', PStr ''Bob''), (''title'', PStr ''VP'')],
      [(''name'', PStr ''Bob''), (''title'', PStr ''CTO''), (''x_handle'', PStr ''@bob'')],
      [(''name'', PStr ''Al'')]]
   = Inr [[(''name'', PStr ''Bob''), (''title'', PStr ''VP''), (''score'', PNum 1)],
          [(''name'', PStr ''Al''), (''score'', PNum 1)]]"
    by (simp add: vr_eval)
  from C4_dedup_by_exact_name[OF h] h show ?thesis by simp
qed

subsection \<open>C5: ranking\<close>

text \<open>
  C5, as stated, fails on its example. Four profiles carrying the scores 0.5, 0.9, 0.9
  and 0.1 are not returned in the order 0.9, 0.9, 0.5, 0.1: line 8 overwrites every
  score with the placeholder 1.0 before the sort, so they come back in arrival order,
  each with score 1.0.
\<close>

theorem C5_rank_counterexample:
  "validate_and_rank
     [[(''name'', PStr ''A''), (''score'', PNum (1/2))],
      [(''name'', PStr ''B''), (''score'', PNum (9/10))],
      [(''name'', PStr ''C''), (''score'', PNum (9/10))],
      [(''name'', PStr ''D''), (''score'', PNum (1/10))]]
   = Inr [[(''name'', PStr ''A''), (''score'', PNum 1)],
          [(''name'', PStr ''B''), (''score'', PNum 1)],
          [(''name'', PStr ''C''), (''score'', PNum 1)],
          [(''name'', PStr ''D''), (''score'', PNum 1)]]"
  by (simp add: vr_eval)

text \<open>
  C5, amended: the sort of line 11 is a stable descending sort by the \<open>'score'\<close> field
  (descending order; elements with equal scores keep their arrival order). Since
  validate\_and\_rank first sets that field to 1.0 on every kept profile, all profiles
  tie: the result is the deduplicated list in arrival order, every score 1.0.
\<close>

theorem C5_rank_placeholder:
  "sorted_wrt (\<lambda>a b. k b \<le> k a) (sorted_reverse k xs)
   \<and> filter (\<lambda>x. k x = c) (sorted_reverse k xs) = filter (\<lambda>x. k x = c) xs
   \<and> (validate_and_rank ps = Inr out \<longrightarrow>
        dedup_loop {} [] ps = Inr out \<and> (\<forall>p\<in>set out. map_of p ''score'' = Some (PNum 1)))"
proof (intro conjI impI)
  assume a: "validate_and_rank ps = Inr out"
  from validate_and_rank_spec(2)[OF a]
  show "\<forall>p\<in>set out. map_of p ''score'' = Some (PNum 1)"
    by (auto simp: map_of_set_score_score)
  from validate_and_rank_spec(1)[OF a] show "dedup_loop {} [] ps = Inr out" .
qed (rule sorted_reverse_desc sorted_reverse_stable)+

theorem C5_rank_placeholder_witness:
  "validate_and_rank
     [[(''name'', PStr ''B''), (''score'', PNum (9/10))],
      [(''name'', PStr ''A''), (''score'', PNum (1/2))]]
   = Inr [[(''name'', PStr ''B''), (''score'', PNum 1)],
          [(''name'', PStr ''A''), (''score'', PNum 1)]]
   \<and> dedup_loop {} []
     [[(''name'', PStr ''B''), (''score'', PNum (9/10))],
      [(''name'', PStr ''A''), (''score'', PNum (1/2))]]
   = Inr [[(''name'', PStr ''B''), (''score'', PNum 1)],
          [(''name'', PStr ''A''), (''score'', PNum 1)]]
   \<and> sorted_wrt (\<lambda>a b. b \<le> a) (sorted_reverse (\<lambda>x. x) [1/2, 9/10, 9/10, 1/10 :: real])"
proof -
  have h: "validate_and_rank
     [[(''name'', PStr ''B''), (''score'', PNum (9/10))],
      [(''name'', PStr ''A''), (''score'', PNum (1/2))]]
   = Inr [[(''name'', PStr ''B''), (''score'', PNum 1)],
          [(''name'', PStr ''A''), (''score'', PNum 1)]]"
    by (simp add: vr_eval)
  from C5_rank_placeholder[of "\<lambda>x. x" "[1/2, 9/10, 9/10, 1/10 :: real]" 0
      "[[(''name'', PStr ''B''), (''score'', PNum (9/10))],
        [(''name'', PStr ''A''), (''score'', PNum (1/2))]]"
      "[[(''name'', PStr ''B''), (''score'', PNum 1)],
        [(''name'', PStr ''A''), (''score'', PNum 1)]]"] h
  show ?thesis by simp
qed

subsection \<open>C10: the unconditional read of the name field\<close>

text \<open>
  C10: validate\_and\_rank reads \<open>p['name']\<close> of every record. If it returns a list then
  every record of the input has a \<open>'name'\<close> key; if every record has a \<open>'name'\<close> key
  with a hashable value, it returns a list; and on an input with a record that lacks
  the key it raises KeyError instead of returning.
\<close>

theorem C10_name_read_unconditionally:
  "((\<exists>out. validate_and_rank ps = Inr out) \<longrightarrow> (\<forall>p\<in>set ps. map_of p ''name'' \<noteq> None))
   \<and> ((\<forall>p\<in>set ps. \<exists>v. map_of p ''name'' = Some v \<and> (\<forall>vs. v \<noteq> PList vs))
        \<longrightarrow> (\<exists>out. validate_and_rank ps = Inr out))
   \<and> validate_and_rank [[(''name'', PStr ''Ann'')], [(''title'', PStr ''CTO'')]]
        = Inl (KeyError ''name'')"
proof (intro conjI impI)
  assume "\<exists>out. validate_and_rank ps = Inr out"
  then obtain out where "dedup_loop {} [] ps = Inr out"
    using validate_and_rank_spec(1) by blast
  from dedup_loop_names[OF this]
  have nk: "\<forall>p\<in>set ps. \<exists>k. name_key p = Inr k" .
  show "\<forall>p\<in>set ps. map_of p ''name'' \<noteq> None"
  proof
    fix p assume "p \<in> set ps"
    with nk obtain k where "name_key p = Inr k" by blast
    then show "map_of p ''name'' \<noteq> None"
      by (auto simp: name_key_def split: option.splits)
  qed
next
  assume a: "\<forall>p\<in>set ps. \<exists>v. map_of p ''name'' = Some v \<and> (\<forall>vs. v \<noteq> PList vs)"
  have "\<forall>p\<in>set ps. \<exists>k. name_key p = Inr k"
  proof
    fix p assume "p \<in> set ps"
    with a obtain v where v: "map_of p ''name'' = Some v" "\<forall>vs. v \<noteq> PList vs" by blast
    then show "\<exists>k. name_key p = Inr k"
      by (cases v) (auto simp: name_key_def)
  qed
  from dedup_loop_total[OF this] obtain u where "dedup_loop {} [] ps = Inr u" by blast
  then show "\<exists>out. validate_and_rank ps = Inr out"
    by (simp add: validate_and_rank_def)
next
  show "validate_and_rank [[(''name'', PStr ''Ann'')], [(''title'', PStr ''CTO'')]]
        = Inl (KeyError ''name'')"
    by (simp add: vr_eval)
qed

theorem C10_name_read_unconditionally_witness:
  "(\<exists>out. validate_and_rank [[(''name'', PStr ''Ann'')], [(''name'', PNone)]] = Inr out)
   \<and> map_of [(''name'', PStr ''Ann'')] ''name'' \<noteq> None
   \<and> map_of [(''name'', PNone)] ''name'' \<noteq> None"
proof -
  have h: "\<forall>p\<in>set [[(''name'', PStr ''Ann'')], [(''name'', PNone)]].
             \<exists>v. map_of p ''name'' = Some v \<and> (\<forall>vs. v \<noteq> PList vs)"
    by simp
  from C10_name_read_unconditionally[of "[[(''name'', PStr ''Ann'')], [(''name'', PNone)]]"] h
  have "\<exists>out. validate_and_rank [[(''name'', PStr ''Ann'')], [(''name'', PNone)]] = Inr out"
    by blast
  then show ?thesis by simp
qed


section \<open>Properties of the credential store and the usage counters\<close>

lemma get_user_token_expired:
  assumes "select_token st u p = Some r" and "tr_expires_at r = Some t" and "t < now clk"
  shows "get_user_token clk st u p = (None, st\<lparr>calls := calls st @ [RefreshCall u p]\<rparr>)"
  using assms
  by (simp add: get_user_token_def refresh_token_def refresh_twitter_token_def
      refresh_linkedin_token_def Let_def)

lemma select_token_calls: "select_token (st\<lparr>calls := c\<rparr>) u p = select_token st u p"
  by (simp add: select_token_def)

subsection \<open>C7: an expired credential whose refresh fails\<close>

text \<open>
  C7: if the credential that get\_user\_token selects for a user and platform has an
  expiry in the past, the call attempts the refresh, which fails, and returns None;
  the stored rows are unchanged; and a later call finds the same expired row and
  attempts the refresh again (the log of refresh calls grows by one at each call).
\<close>

theorem C7_expired_refresh_fails:
  assumes sel: "select_token st u p = Some r" and ex: "tr_expires_at r = Some t"
    and past: "t < now clk" and later: "now clk \<le> now clk'"
  shows "get_user_token clk st u p = (None, st\<lparr>calls := calls st @ [RefreshCall u p]\<rparr>)
    \<and> social_tokens (snd (get_user_token clk st u p)) = social_tokens st
    \<and> get_user_token clk' (snd (get_user_token clk st u p)) u p
        = (None, st\<lparr>calls := calls st @ [RefreshCall u p, RefreshCall u p]\<rparr>)"
proof -
  have one: "get_user_token clk st u p = (None, st\<lparr>calls := calls st @ [RefreshCall u p]\<rparr>)"
    by (rule get_user_token_expired[OF sel ex past])
  have sel': "select_token (st\<lparr>calls := calls st @ [RefreshCall u p]\<rparr>) u p = Some r"
    using sel by (simp add: select_token_calls)
  from past later have "t < now clk'" by simp
  from get_user_token_expired[OF sel' ex this] one show ?thesis by simp
qed

theorem C7_expired_refresh_fails_witness:
  "get_user_token \<lparr>now = 5000, current_timestamp = 5000, today = 0\<rparr>
     \<lparr>social_tokens =
        [\<lparr>tr_id = 1, tr_user_id = ''u1'', tr_platform = ''twitter'',
          tr_access_token = PStr ''tok'', tr_refresh_token = PStr ''ref'',
          tr_expires_at = Some 3700, tr_token_data = [(''expires_in'', PNum 3600)],
          tr_created_at = 100\<rparr>],
      api_usage = [], calls = []\<rparr> ''u1'' ''twitter''
   = (None,
      \<lparr>social_tokens =
        [\<lparr>tr_id = 1, tr_user_id = ''u1'', tr_platform = ''twitter'',
          tr_access_token = PStr ''tok'', tr_refresh_token = PStr ''ref'',
          tr_expires_at = Some 3700, tr_token_data = [(''expires_in'', PNum 3600)],
          tr_created_at = 100\<rparr>],
      api_usage = [], calls = [RefreshCall ''u1'' ''twitter'']\<rparr>)"
proof -
  let ?r = "\<lparr>tr_id = 1, tr_user_id = ''u1'', tr_platform = ''twitter'',
          tr_access_token = PStr ''tok'', tr_refresh_token = PStr ''ref'',
          tr_expires_at = Some 3700, tr_token_data = [(''expires_in'', PNum 3600)],
          tr_created_at = 100\<rparr>"
  let ?st = "\<lparr>social_tokens = [?r], api_usage = [], calls = []\<rparr>"
  let ?clk = "\<lparr>now = 5000, current_timestamp = 5000, today = 0\<rparr>"
  have sel: "select_token ?st ''u1'' ''twitter'' = Some ?r" by (simp add: select_token_def)
  have ex: "tr_expires_at ?r = Some 3700" by simp
  have past: "3700 < now ?clk" by simp
  have later: "now ?clk \<le> now ?clk" by simp
  from C7_expired_refresh_fails[OF sel ex past later] show ?thesis by simp
qed

subsection \<open>C8: one credential row per user and platform\<close>

text \<open>
  C8 does not hold of the code: storing a token for a user and platform that already
  has one appends a second row. The \<open>INSERT OR REPLACE\<close> of store\_social\_token has
  nothing to conflict with, the table having no UNIQUE constraint on the pair. Here
  two tokens are stored in turn for the same user and platform, and both rows are in
  the table afterwards.
\<close>

theorem C8_store_twice_appends:
  "(case store_social_token \<lparr>now = 100, current_timestamp = 100, today = 0\<rparr> init_database
           ''u1'' ''twitter'' [(''access_token'', PStr ''old'')] of
      Inl e \<Rightarrow> None
    | Inr s1 \<Rightarrow>
        (case store_social_token \<lparr>now = 200, current_timestamp = 200, today = 0\<rparr> s1
                ''u1'' ''twitter'' [(''access_token'', PStr ''new'')] of
           Inl e \<Rightarrow> None
         | Inr s2 \<Rightarrow>
             Some (map (\<lambda>r. (tr_id r, tr_user_id r, tr_platform r, tr_access_token r))
                       (social_tokens s2))))
   = Some [(1, ''u1'', ''twitter'', PStr ''old''), (2, ''u1'', ''twitter'', PStr ''new'')]"
  by (simp add: store_social_token_def init_database_def next_id_def dict_get_def)

subsection \<open>C9: three calls of track\<close>

text \<open>
  C9 does not hold of the code: from the empty tables, three calls of
  track\_api\_usage for one user, platform and endpoint make get\_user\_usage with
  window 1 return the count 9 for the endpoint, not 3. Each call appends a row with
  count 1 and then adds 1 to every row of the key, so the rows hold 4, 3 and 2.
\<close>

theorem C9_track_three_times:
  "get_user_usage clk
     (track_api_usage clk
        (track_api_usage clk (track_api_usage clk init_database (Some u) p e) (Some u) p e)
        (Some u) p e)
     u p 1 = [(e, 9)]"
  by (simp add: get_user_usage_def track_api_usage_def init_database_def next_id_def Let_def)

section \<open>Properties of the scouts\<close>














lemma any_source_tagged: "ps \<noteq> [] \<Longrightarrow> any_source tag (map (tag_source tag) ps)"
  by (cases ps) (simp_all add: any_source_def tag_source_def dict_get_def update_conv')









subsection \<open>C1: the scouts never raise\<close>


subsection \<open>C2: the short circuit of the authenticated tier\<close>




subsection \<open>C3: falling through the tiers\<close>




section \<open>Properties of lead\_discovery\<close>







subsection \<open>C6: one failing scout call out of two\<close>




end
